theory Spec2Isabelle
  imports Complex_Main "HOL-Library.AList"
begin

section \<open>Data plot visualizer microservice (app.py)\<close>

text \<open>
  A shallow embedding of \<^verbatim>\<open>app.py\<close>: the request validator, the plot generator, the
  in-memory plot index and the three routes.  Everything the Python code takes from outside
  (the decoded request body, the builtins \<^verbatim>\<open>float\<close> and \<^verbatim>\<open>str\<close>, the uuid, the clock,
  the plotting library and the filesystem) is an explicit argument or part of the state.
\<close>

subsection \<open>Decoded JSON values\<close>

text \<open>
  What \<^verbatim>\<open>request.get_json\<close> hands to the validator: \<^verbatim>\<open>None\<close>, \<^verbatim>\<open>bool\<close>, \<^verbatim>\<open>int\<close>
  (unbounded), \<^verbatim>\<open>float\<close>, \<^verbatim>\<open>str\<close>, \<^verbatim>\<open>list\<close> and \<^verbatim>\<open>dict\<close>.  The type \<open>'f\<close> is
  the type of floating-point values, which is left abstract.  A \<^verbatim>\<open>dict\<close> is the list of
  its items; a key is looked up with \<open>map_of\<close>.
\<close>

datatype 'f json =
    JNull
  | JBool bool
  | JInt int
  | JFloat 'f
  | JStr string
  | JArr "'f json list"
  | JObj "(string \<times> 'f json) list"

text \<open>\<^verbatim>\<open>d.get(k)\<close> and \<^verbatim>\<open>d.get(k, default)\<close>.\<close>

definition dict_get :: "(string \<times> 'f json) list \<Rightarrow> string \<Rightarrow> 'f json" where
  "dict_get d k = (case map_of d k of None \<Rightarrow> JNull | Some v \<Rightarrow> v)"

definition dict_get_default :: "(string \<times> 'f json) list \<Rightarrow> string \<Rightarrow> 'f json \<Rightarrow> 'f json" where
  "dict_get_default d k dflt = (case map_of d k of None \<Rightarrow> dflt | Some v \<Rightarrow> v)"

subsection \<open>The builtins \<^verbatim>\<open>float\<close> and \<^verbatim>\<open>str\<close>\<close>

datatype exn = TypeError | ValueError | OverflowError | RenderError

text \<open>
  The parts of the builtins that depend on the floating-point format are parameters:
  \<open>float_of_str s\<close> is \<open>None\<close> where \<^verbatim>\<open>float(s)\<close> raises \<^verbatim>\<open>ValueError\<close>,
  \<open>float_of_int n\<close> is the rounded value of an integer in range, and \<open>str_of\<close> is
  \<^verbatim>\<open>str\<close> on numbers, lists and dicts.
\<close>

record 'f builtins =
  float_of_str :: "string \<Rightarrow> 'f option"
  float_of_int :: "int \<Rightarrow> 'f"
  str_of :: "'f json \<Rightarrow> string"

text \<open>
  \<^verbatim>\<open>float(n)\<close> of an \<^verbatim>\<open>int\<close> raises \<^verbatim>\<open>OverflowError\<close> when \<open>n\<close> rounds (to nearest,
  ties to even) beyond the largest double \<open>2^1024 - 2^971\<close>, that is from
  \<open>2^1024 - 2^970\<close> on.
\<close>

definition int_too_large :: "int \<Rightarrow> bool" where
  "int_too_large n = (2 ^ 1024 - 2 ^ 970 \<le> \<bar>n\<bar>)"

text \<open>
  \<^verbatim>\<open>float(v)\<close>: \<^verbatim>\<open>TypeError\<close> on \<^verbatim>\<open>None\<close>, lists and dicts; a \<^verbatim>\<open>bool\<close> is the integer
  0 or 1; an \<^verbatim>\<open>int\<close> is rounded or overflows; a \<^verbatim>\<open>float\<close> is returned as it is; a
  \<^verbatim>\<open>str\<close> is parsed or raises \<^verbatim>\<open>ValueError\<close>.
\<close>

fun py_float :: "'f builtins \<Rightarrow> 'f json \<Rightarrow> exn + 'f" where
  "py_float B JNull = Inl TypeError"
| "py_float B (JBool b) = Inr (float_of_int B (if b then 1 else 0))"
| "py_float B (JInt n) = (if int_too_large n then Inl OverflowError else Inr (float_of_int B n))"
| "py_float B (JFloat f) = Inr f"
| "py_float B (JStr s) = (case float_of_str B s of None \<Rightarrow> Inl ValueError | Some f \<Rightarrow> Inr f)"
| "py_float B (JArr vs) = Inl TypeError"
| "py_float B (JObj d) = Inl TypeError"

text \<open>
  The comprehension \<^verbatim>\<open>[float(v) for v in y]\<close>: elements are converted from the left and
  the first exception ends the comprehension.
\<close>

fun float_all :: "'f builtins \<Rightarrow> 'f json list \<Rightarrow> exn + 'f list" where
  "float_all B [] = Inr []"
| "float_all B (v # vs) =
     (case py_float B v of
        Inl e \<Rightarrow> Inl e
      | Inr f \<Rightarrow> (case float_all B vs of Inl e \<Rightarrow> Inl e | Inr fs \<Rightarrow> Inr (f # fs)))"

fun py_str :: "'f builtins \<Rightarrow> 'f json \<Rightarrow> string" where
  "py_str B (JStr s) = s"
| "py_str B JNull = ''None''"
| "py_str B (JBool b) = (if b then ''True'' else ''False'')"
| "py_str B v = str_of B v"

subsection \<open>The request validator\<close>

text \<open>
  The elements of \<^verbatim>\<open>x_values\<close> are the integers of \<^verbatim>\<open>range\<close> when \<^verbatim>\<open>x\<close> is absent and
  floats otherwise; the elements of \<^verbatim>\<open>y_values\<close> are floats.
\<close>

datatype 'f num = PyInt int | PyFloat 'f

record meta =
  title :: string
  x_label :: string
  y_label :: string

text \<open>
  The three ways \<^verbatim>\<open>_validate_plot_request\<close> ends: \<open>Rejected msg\<close> is the return value
  \<^verbatim>\<open>(None, None, msg)\<close>, \<open>Accepted x_values y_values meta\<close> is the triple of the last
  line, and \<open>Raised e\<close> is an exception that leaves the function.
\<close>

datatype 'f outcome =
    Rejected string
  | Accepted "'f num list" "'f list" meta
  | Raised exn

text \<open>
  The handler \<^verbatim>\<open>except (TypeError, ValueError)\<close> of the two comprehensions: these two
  exceptions become the given message, any other exception propagates.
\<close>

fun except_type_value :: "string \<Rightarrow> exn \<Rightarrow> 'f outcome" where
  "except_type_value msg TypeError = Rejected msg"
| "except_type_value msg ValueError = Rejected msg"
| "except_type_value msg e = Raised e"

definition make_meta :: "'f builtins \<Rightarrow> (string \<times> 'f json) list \<Rightarrow> meta" where
  "make_meta B payload =
     \<lparr> title = py_str B (dict_get_default payload ''title'' (JStr ''Data Plot'')),
       x_label = py_str B (dict_get_default payload ''x_label'' (JStr ''Index'')),
       y_label = py_str B (dict_get_default payload ''y_label'' (JStr ''Value'')) \<rparr>"

text \<open>The part of the validator after \<^verbatim>\<open>y_values\<close> has been computed.\<close>

definition validate_x :: "'f builtins \<Rightarrow> (string \<times> 'f json) list \<Rightarrow> 'f json \<Rightarrow> 'f list \<Rightarrow> 'f outcome" where
  "validate_x B payload x y_values =
     (if x = JNull then
        Accepted (map (\<lambda>i. PyInt (int i)) [0..<length y_values]) y_values (make_meta B payload)
      else
        (case x of
           JArr xs \<Rightarrow>
             if length xs \<noteq> length y_values then Rejected ''x and y must have the same length''
             else
               (case float_all B xs of
                  Inl e \<Rightarrow> except_type_value ''all x values must be numeric'' e
                | Inr x_values \<Rightarrow> Accepted (map PyFloat x_values) y_values (make_meta B payload))
         | _ \<Rightarrow> Rejected '''data.x' must be an array of numbers''))"

text \<open>The part of the validator from the check of \<^verbatim>\<open>y\<close> on.\<close>

definition validate_y :: "'f builtins \<Rightarrow> (string \<times> 'f json) list \<Rightarrow> 'f json \<Rightarrow> 'f json \<Rightarrow> 'f outcome" where
  "validate_y B payload y x =
     (case y of
        JArr ys \<Rightarrow>
          if length ys < 2 then Rejected ''at least two data points are required''
          else if length ys > 5000 then Rejected ''data contains too many points (max 5000)''
          else
            (case float_all B ys of
               Inl e \<Rightarrow> except_type_value ''all y values must be numeric'' e
             | Inr y_values \<Rightarrow> validate_x B payload x y_values)
      | _ \<Rightarrow> Rejected '''data' or 'data.y' must be an array of numbers'')"

definition validate_plot_request :: "'f builtins \<Rightarrow> 'f json \<Rightarrow> 'f outcome" where
  "validate_plot_request B payload =
     (case payload of
        JObj pd \<Rightarrow>
          (let data = dict_get pd ''data'' in
           if data = JNull then Rejected ''missing 'data' field''
           else
             (case data of
                JObj dd \<Rightarrow> validate_y B pd (dict_get dd ''y'') (dict_get dd ''x'')
              | _ \<Rightarrow> validate_y B pd data JNull))
      | _ \<Rightarrow> Rejected ''request body must be a json object'')"

subsection \<open>State: the plot index and the plots directory\<close>

type_synonym bytes = string

text \<open>A value of the dict \<^verbatim>\<open>PLOTS\<close>: \<^verbatim>\<open>{"path": ..., "created_at": ...}\<close>.\<close>

record plot_info =
  path :: string
  created_at :: string

text \<open>
  \<open>PLOTS_DIR\<close> is read from the environment once, at import.  \<open>PLOTS\<close> is the dict
  \<^verbatim>\<open>PLOTS\<close> as the list of its items in insertion order.  \<open>files\<close> is the filesystem:
  the contents of each path that exists.
\<close>

record state =
  PLOTS_DIR :: string
  PLOTS :: "(string \<times> plot_info) list"
  files :: "string \<rightharpoonup> bytes"

text \<open>The state when the module has been imported: the index is empty.\<close>

definition init_state :: "string \<Rightarrow> (string \<rightharpoonup> bytes) \<Rightarrow> state" where
  "init_state dir fs = \<lparr> PLOTS_DIR = dir, PLOTS = [], files = fs \<rparr>"

text \<open>\<^verbatim>\<open>os.path.join(a, b)\<close> of \<^verbatim>\<open>posixpath\<close>, for two components.\<close>

definition os_path_join :: "string \<Rightarrow> string \<Rightarrow> string" where
  "os_path_join a b =
     (if b \<noteq> [] \<and> hd b = CHR ''/'' then b
      else if a = [] \<or> last a = CHR ''/'' then a @ b
      else a @ ''/'' @ b)"

text \<open>\<^verbatim>\<open>os.path.exists(p)\<close>; the empty path does not exist.\<close>

definition os_path_exists :: "(string \<rightharpoonup> bytes) \<Rightarrow> string \<Rightarrow> bool" where
  "os_path_exists fs p = (p \<noteq> [] \<and> fs p \<noteq> None)"

subsection \<open>The plot generator\<close>

text \<open>
  What one call of \<^verbatim>\<open>_generate_plot_file\<close> takes from outside: the string of
  \<^verbatim>\<open>uuid.uuid4()\<close>, the string of \<^verbatim>\<open>datetime.utcnow().isoformat()\<close>, and the plotting
  library as a black box from the data and the labels to the outcome of the calls from
  \<^verbatim>\<open>plt.subplots\<close> to \<^verbatim>\<open>plt.close\<close>: \<open>Saved png\<close> when \<^verbatim>\<open>fig.savefig\<close> has written the
  bytes \<open>png\<close>, \<open>Failed e partial\<close> when one of the calls raised \<open>e\<close>, with the bytes it
  left in the file, if any.
\<close>

datatype savefig_outcome = Saved bytes | Failed exn "bytes option"

record 'f gen_env =
  uuid4 :: string
  utcnow_isoformat :: string
  render :: "'f num list \<Rightarrow> 'f list \<Rightarrow> meta \<Rightarrow> savefig_outcome"

text \<open>
  \<^verbatim>\<open>_generate_plot_file\<close>: the result is the exception, or the triple
  \<^verbatim>\<open>(plot_id, file_path, created_at)\<close>, with the state after the call.
\<close>

definition generate_plot_file ::
  "state \<Rightarrow> 'f gen_env \<Rightarrow> 'f num list \<Rightarrow> 'f list \<Rightarrow> meta
     \<Rightarrow> (exn + string \<times> string \<times> string) \<times> state" where
  "generate_plot_file s env x_values y_values m =
     (let plot_id = uuid4 env;
          file_name = plot_id @ ''.png'';
          file_path = os_path_join (PLOTS_DIR s) file_name
      in case render env x_values y_values m of
           Failed e partial \<Rightarrow>
             (Inl e,
              case partial of
                None \<Rightarrow> s
              | Some b \<Rightarrow> s\<lparr> files := (files s)(file_path \<mapsto> b) \<rparr>)
         | Saved png \<Rightarrow>
             (let s1 = s\<lparr> files := (files s)(file_path \<mapsto> png) \<rparr>;
                  created = utcnow_isoformat env @ ''Z'';
                  s2 = s1\<lparr> PLOTS :=
                         AList.update plot_id \<lparr> path = file_path, created_at = created \<rparr> (PLOTS s1) \<rparr>
              in (Inr (plot_id, file_path, created), s2)))"

subsection \<open>Requests and responses\<close>

text \<open>
  A response is \<^verbatim>\<open>jsonify(body), status\<close>, or the file sent by \<^verbatim>\<open>send_file\<close> (status 200)
  with its mimetype and download name, or the status 500 that the framework answers when
  a view function raises.
\<close>

datatype 'f response =
    JsonResponse "'f json" nat
  | FileResponse bytes string string
  | Unhandled exn

fun status_code :: "'f response \<Rightarrow> nat" where
  "status_code (JsonResponse body code) = code"
| "status_code (FileResponse content mimetype download_name) = 200"
| "status_code (Unhandled e) = 500"

definition error_body :: "string \<Rightarrow> 'f json" where
  "error_body msg = JObj [(''status'', JStr ''error''), (''message'', JStr msg)]"

text \<open>
  The body of a POST: \<open>is_json\<close> is \<^verbatim>\<open>request.is_json\<close> (the content type), \<open>decoded\<close> is
  the decoded body, \<open>None\<close> when the body is not valid JSON.
\<close>

record 'f post_body =
  is_json :: bool
  decoded :: "'f json option"

text \<open>\<^verbatim>\<open>request.get_json(silent=True)\<close>: a body that does not decode gives \<^verbatim>\<open>None\<close>.\<close>

definition get_json_silent :: "'f post_body \<Rightarrow> 'f json" where
  "get_json_silent req = (case decoded req of None \<Rightarrow> JNull | Some v \<Rightarrow> v)"

subsection \<open>Routes\<close>

definition health :: "state \<Rightarrow> 'f response \<times> state" where
  "health s =
     (JsonResponse
        (JObj [(''status'', JStr ''ok''),
               (''service'', JStr ''data-plot-visualizer''),
               (''stored_plots'', JInt (int (length (PLOTS s))))])
        200,
      s)"

definition create_plot ::
  "'f builtins \<Rightarrow> state \<Rightarrow> 'f post_body \<Rightarrow> 'f gen_env \<Rightarrow> 'f response \<times> state" where
  "create_plot B s req env =
     (if \<not> is_json req then (JsonResponse (error_body ''expected json body'') 400, s)
      else
        (let payload = get_json_silent req in
         case validate_plot_request B payload of
           Raised e \<Rightarrow> (Unhandled e, s)
         | Rejected msg \<Rightarrow> (JsonResponse (error_body msg) 400, s)
         | Accepted x_values y_values m \<Rightarrow>
             (case generate_plot_file s env x_values y_values m of
                (Inl e, s') \<Rightarrow> (Unhandled e, s')
              | (Inr (plot_id, file_path, created), s') \<Rightarrow>
                  (JsonResponse
                     (JObj [(''status'', JStr ''ok''),
                            (''plot_id'', JStr plot_id),
                            (''created_at'', JStr created),
                            (''image_path'', JStr file_path)])
                     200,
                   s'))))"

text \<open>
  \<^verbatim>\<open>download_plot\<close>.  A value of \<^verbatim>\<open>PLOTS\<close> is a dict of two items, so \<^verbatim>\<open>not info\<close> holds
  only when \<^verbatim>\<open>PLOTS.get\<close> returned \<^verbatim>\<open>None\<close>.  \<^verbatim>\<open>send_file\<close> reads the file that has just
  been found to exist.
\<close>

definition download_plot :: "state \<Rightarrow> string \<Rightarrow> 'f response \<times> state" where
  "download_plot s plot_id =
     (case map_of (PLOTS s) plot_id of
        None \<Rightarrow>
          (JsonResponse (error_body (''plot '' @ [CHR 0x27] @ plot_id @ [CHR 0x27] @ '' not found'')) 404, s)
      | Some info \<Rightarrow>
          (let file_path = path info in
           if file_path = [] \<or> \<not> os_path_exists (files s) file_path then
             (JsonResponse (error_body ''plot file is missing or unavailable'') 500, s)
           else
             (FileResponse (the (files s file_path)) ''image/png'' (''plot-'' @ plot_id @ ''.png''),
              s)))"

definition not_found :: "state \<Rightarrow> 'f response \<times> state" where
  "not_found s = (JsonResponse (error_body ''endpoint not found'') 404, s)"

text \<open>One request, with what the generator takes from outside when the request is a POST.\<close>

datatype 'f request =
    GetHealth
  | PostPlots "'f post_body" "'f gen_env"
  | GetPlot string
  | Unmatched

fun handle :: "'f builtins \<Rightarrow> state \<Rightarrow> 'f request \<Rightarrow> 'f response \<times> state" where
  "handle B s GetHealth = health s"
| "handle B s (PostPlots req env) = create_plot B s req env"
| "handle B s (GetPlot plot_id) = download_plot s plot_id"
| "handle B s Unmatched = not_found s"

text \<open>A sequence of requests, one after the other: the responses and the last state.\<close>

fun run :: "'f builtins \<Rightarrow> state \<Rightarrow> 'f request list \<Rightarrow> 'f response list \<times> state" where
  "run B s [] = ([], s)"
| "run B s (r # rs) =
     (case handle B s r of
        (resp, s') \<Rightarrow> (case run B s' rs of (resps, s'') \<Rightarrow> (resp # resps, s'')))"

text \<open>
  The plot identifiers that the successful POSTs of a run return, in order; their number
  is the number of successful POSTs.
\<close>

fun post_uuid :: "'f request \<Rightarrow> string option" where
  "post_uuid (PostPlots req env) = Some (uuid4 env)"
| "post_uuid r = None"

fun generated_ids :: "'f builtins \<Rightarrow> state \<Rightarrow> 'f request list \<Rightarrow> string list" where
  "generated_ids B s [] = []"
| "generated_ids B s (r # rs) =
     (case handle B s r of
        (resp, s') \<Rightarrow>
          (case post_uuid r of
             Some u \<Rightarrow> if status_code resp = 200 then u # generated_ids B s' rs
                       else generated_ids B s' rs
           | None \<Rightarrow> generated_ids B s' rs))"

fun is_post :: "'f request \<Rightarrow> bool" where
  "is_post (PostPlots req env) = True"
| "is_post r = False"

text \<open>The number of POSTs of a run that were answered with status 200.\<close>

definition successful_posts :: "'f request list \<Rightarrow> 'f response list \<Rightarrow> nat" where
  "successful_posts rs resps =
     length (filter (\<lambda>(r, resp). is_post r \<and> status_code resp = 200) (zip rs resps))"

subsection \<open>The validation rules as the specification lists them\<close>

text \<open>
  The rules of section 4.1 of the specification, in its order, each with the message of its
  failure; the first component of a rule tells whether the payload satisfies it.  This list
  follows the words of the specification, not the code: ``must be a mapping'', ``must
  contain a data field'', ``resolved y must be array-like'', ``length at least 2'', ``at
  most 5000'', ``every y element must be convertible to a floating-point number'', and the
  three conditions on \<^verbatim>\<open>x\<close> when it is present.
\<close>

definition is_object :: "'f json \<Rightarrow> bool" where
  "is_object v = (case v of JObj d \<Rightarrow> True | _ \<Rightarrow> False)"

definition is_array :: "'f json \<Rightarrow> bool" where
  "is_array v = (case v of JArr vs \<Rightarrow> True | _ \<Rightarrow> False)"

definition fields :: "'f json \<Rightarrow> (string \<times> 'f json) list" where
  "fields v = (case v of JObj d \<Rightarrow> d | _ \<Rightarrow> [])"

definition items :: "'f json \<Rightarrow> 'f json list" where
  "items v = (case v of JArr vs \<Rightarrow> vs | _ \<Rightarrow> [])"

definition spec_data :: "'f json \<Rightarrow> 'f json" where
  "spec_data payload = dict_get (fields payload) ''data''"

definition spec_y :: "'f json \<Rightarrow> 'f json" where
  "spec_y payload =
     (if is_object (spec_data payload) then dict_get (fields (spec_data payload)) ''y''
      else spec_data payload)"

definition spec_x :: "'f json \<Rightarrow> 'f json" where
  "spec_x payload =
     (if is_object (spec_data payload) then dict_get (fields (spec_data payload)) ''x''
      else JNull)"

text \<open>An element is convertible when \<^verbatim>\<open>float\<close> of it returns a value.\<close>

definition convertible :: "'f builtins \<Rightarrow> 'f json \<Rightarrow> bool" where
  "convertible B v = (case py_float B v of Inl e \<Rightarrow> False | Inr f \<Rightarrow> True)"

definition y_rules :: "'f builtins \<Rightarrow> 'f json \<Rightarrow> (bool \<times> string) list" where
  "y_rules B y =
     [(is_array y, '''data' or 'data.y' must be an array of numbers''),
      (2 \<le> length (items y), ''at least two data points are required''),
      (length (items y) \<le> 5000, ''data contains too many points (max 5000)''),
      (list_all (convertible B) (items y), ''all y values must be numeric'')]"

definition x_rules :: "'f builtins \<Rightarrow> 'f json \<Rightarrow> nat \<Rightarrow> (bool \<times> string) list" where
  "x_rules B x n =
     [(x = JNull \<or> is_array x, '''data.x' must be an array of numbers''),
      (x = JNull \<or> length (items x) = n, ''x and y must have the same length''),
      (x = JNull \<or> list_all (convertible B) (items x), ''all x values must be numeric'')]"

definition spec_rules :: "'f builtins \<Rightarrow> 'f json \<Rightarrow> (bool \<times> string) list" where
  "spec_rules B payload =
     [(is_object payload, ''request body must be a json object''),
      (spec_data payload \<noteq> JNull, ''missing 'data' field'')]
     @ y_rules B (spec_y payload)
     @ x_rules B (spec_x payload) (length (items (spec_y payload)))"

text \<open>First failure wins.\<close>

fun first_failure :: "(bool \<times> string) list \<Rightarrow> string option" where
  "first_failure [] = None"
| "first_failure ((ok, msg) # rules) = (if ok then first_failure rules else Some msg)"

subsection \<open>Concrete inputs for the examples\<close>

text \<open>
  Builtins for the examples: floats are reals, and the strings \<^verbatim>\<open>"3.5"\<close> and \<^verbatim>\<open>"2"\<close>
  are the two that parse.
\<close>

definition exB :: "real builtins" where
  "exB = \<lparr> float_of_str = (\<lambda>s. if s = ''3.5'' then Some 3.5 else if s = ''2'' then Some 2 else None),
           float_of_int = real_of_int,
           str_of = (\<lambda>v. ''?'') \<rparr>"

definition ok_body :: "real post_body" where
  "ok_body = \<lparr> is_json = True, decoded = Some (JObj [(''data'', JArr [JInt 1, JStr ''3.5''])]) \<rparr>"

definition short_body :: "real post_body" where
  "short_body = \<lparr> is_json = True, decoded = Some (JObj [(''data'', JArr [JInt 1])]) \<rparr>"

definition env1 :: "real gen_env" where
  "env1 = \<lparr> uuid4 = ''a1'', utcnow_isoformat = ''2024-01-01T00:00:00'',
            render = (\<lambda>x y m. Saved ''PNG1'') \<rparr>"

definition env2 :: "real gen_env" where
  "env2 = \<lparr> uuid4 = ''b2'', utcnow_isoformat = ''2024-01-01T00:00:01'',
            render = (\<lambda>x y m. Saved ''PNG2'') \<rparr>"

text \<open>
  A run from process start: a POST that succeeds, a POST of one point only, a download
  of the first plot, and a second POST that succeeds; its responses and its last state.
\<close>

definition ex_run :: "real request list" where
  "ex_run = [PostPlots ok_body env1, PostPlots short_body env2, GetPlot ''a1'', PostPlots ok_body env2]"

definition ex_responses :: "real response list" where
  "ex_responses =
     [JsonResponse (JObj [(''status'', JStr ''ok''), (''plot_id'', JStr ''a1''),
        (''created_at'', JStr ''2024-01-01T00:00:00Z''), (''image_path'', JStr ''plots/a1.png'')]) 200,
      JsonResponse (JObj [(''status'', JStr ''error''),
        (''message'', JStr ''at least two data points are required'')]) 400,
      FileResponse ''PNG1'' ''image/png'' ''plot-a1.png'',
      JsonResponse (JObj [(''status'', JStr ''ok''), (''plot_id'', JStr ''b2''),
        (''created_at'', JStr ''2024-01-01T00:00:01Z''), (''image_path'', JStr ''plots/b2.png'')]) 200]"

definition ex_final :: state where
  "ex_final =
     \<lparr> PLOTS_DIR = ''plots'',
       PLOTS = [(''a1'', \<lparr> path = ''plots/a1.png'', created_at = ''2024-01-01T00:00:00Z'' \<rparr>),
                (''b2'', \<lparr> path = ''plots/b2.png'', created_at = ''2024-01-01T00:00:01Z'' \<rparr>)],
       files = [''plots/a1.png'' \<mapsto> ''PNG1'', ''plots/b2.png'' \<mapsto> ''PNG2''] \<rparr>"

text \<open>The state after the first POST of that run.\<close>

definition after_first :: state where
  "after_first =
     \<lparr> PLOTS_DIR = ''plots'',
       PLOTS = [(''a1'', \<lparr> path = ''plots/a1.png'', created_at = ''2024-01-01T00:00:00Z'' \<rparr>)],
       files = [''plots/a1.png'' \<mapsto> ''PNG1''] \<rparr>"

text \<open>The last state of that run after the file of the first plot has been removed.\<close>

definition missing_file_state :: state where
  "missing_file_state = ex_final \<lparr> files := [''plots/b2.png'' \<mapsto> ''PNG2''] \<rparr>"

lemmas eval_defs =
  validate_plot_request_def validate_y_def validate_x_def make_meta_def dict_get_def
  dict_get_default_def int_too_large_def create_plot_def generate_plot_file_def
  get_json_silent_def os_path_join_def os_path_exists_def health_def download_plot_def
  not_found_def error_body_def init_state_def Let_def exB_def ok_body_def short_body_def
  env1_def env2_def successful_posts_def

section \<open>Properties of the validator\<close>

lemma float_all_length: "float_all B vs = Inr fs \<Longrightarrow> length fs = length vs"
  by (induction vs arbitrary: fs) (auto split: sum.splits)

lemma except_not_accepted [simp]: "except_type_value msg e \<noteq> Accepted xs ys m"
  by (cases e) simp_all

lemma validate_x_lengths:
  "validate_x B pd x ys = Accepted xs ys' m \<Longrightarrow> ys' = ys \<and> length xs = length ys"
  by (auto simp: validate_x_def dest: float_all_length split: if_splits json.splits sum.splits)

lemma validate_y_lengths:
  "validate_y B pd y x = Accepted xs ys m \<Longrightarrow>
     length xs = length ys \<and> 2 \<le> length ys \<and> length ys \<le> 5000"
  by (auto simp: validate_y_def dest!: float_all_length validate_x_lengths
      split: if_splits json.splits sum.splits)

text \<open>
  C2.  Whenever the validator succeeds, \<^verbatim>\<open>x_values\<close> and \<^verbatim>\<open>y_values\<close> have the same length,
  and that length is at least 2 and at most 5000, whether \<^verbatim>\<open>x\<close> was supplied or synthesized.
\<close>

theorem validated_lengths:
  "validate_plot_request B payload = Accepted xs ys m \<Longrightarrow>
     length xs = length ys \<and> 2 \<le> length ys \<and> length ys \<le> 5000"
  unfolding validate_plot_request_def Let_def
  by (auto dest!: validate_y_lengths split: if_splits json.splits)

theorem validated_lengths_witness:
  "validate_plot_request exB (JObj [(''data'', JArr [JInt 1, JStr ''3.5''])])
     = Accepted [PyInt 0, PyInt 1] [1, 3.5]
         \<lparr> title = ''Data Plot'', x_label = ''Index'', y_label = ''Value'' \<rparr>
   \<and> length [PyInt 0, PyInt 1 :: real num] = length [1, 3.5 :: real]
   \<and> 2 \<le> length [1, 3.5 :: real] \<and> length [1, 3.5 :: real] \<le> 5000"
proof -
  have h: "validate_plot_request exB (JObj [(''data'', JArr [JInt 1, JStr ''3.5''])])
     = Accepted [PyInt 0, PyInt 1] [1, 3.5]
         \<lparr> title = ''Data Plot'', x_label = ''Index'', y_label = ''Value'' \<rparr>"
    by (simp add: eval_defs)
  show ?thesis using h validated_lengths [OF h] by simp
qed

lemma validate_x_absent:
  "validate_x B pd JNull ys = Accepted (map (\<lambda>i. PyInt (int i)) [0..<length ys]) ys (make_meta B pd)"
  by (simp add: validate_x_def)

lemma validate_y_absent_x:
  "validate_y B pd y JNull = Accepted xs ys m \<Longrightarrow> xs = map (\<lambda>i. PyInt (int i)) [0..<length ys]"
  by (cases y) (auto simp: validate_y_def validate_x_absent split: if_splits sum.splits)

text \<open>
  C6.  For every payload that passes validation and has no \<^verbatim>\<open>x\<close> field (\<^verbatim>\<open>data\<close> is a flat
  array, or \<^verbatim>\<open>data\<close> is a mapping without the key \<^verbatim>\<open>x\<close>), the validator returns as
  \<^verbatim>\<open>x_values\<close> the integer sequence \<open>0, 1, ..., len(y) - 1\<close>, which has the length of
  \<^verbatim>\<open>y_values\<close>.
\<close>

theorem synthesized_x_is_index_sequence:
  assumes "validate_plot_request B (JObj pd) = Accepted xs ys m"
    and "(\<exists>vs. dict_get pd ''data'' = JArr vs)
         \<or> (\<exists>dd. dict_get pd ''data'' = JObj dd \<and> map_of dd ''x'' = None)"
  shows "xs = map (\<lambda>i. PyInt (int i)) [0..<length ys] \<and> length xs = length ys"
proof -
  have "validate_y B pd (dict_get pd ''data'') JNull = Accepted xs ys m
        \<or> (\<exists>dd. validate_y B pd (dict_get dd ''y'') JNull = Accepted xs ys m)"
    using assms(2)
  proof
    assume "\<exists>vs. dict_get pd ''data'' = JArr vs"
    then obtain vs where d: "dict_get pd ''data'' = JArr vs" by blast
    from assms(1) show ?thesis by (simp add: validate_plot_request_def d)
  next
    assume "\<exists>dd. dict_get pd ''data'' = JObj dd \<and> map_of dd ''x'' = None"
    then obtain dd where d: "dict_get pd ''data'' = JObj dd" and x: "map_of dd ''x'' = None"
      by blast
    have "dict_get dd ''x'' = JNull" by (simp add: dict_get_def x)
    with assms(1) show ?thesis by (auto simp: validate_plot_request_def d)
  qed
  then have "xs = map (\<lambda>i. PyInt (int i)) [0..<length ys]"
    by (auto dest: validate_y_absent_x)
  then show ?thesis by simp
qed

theorem synthesized_x_is_index_sequence_witness:
  "validate_plot_request exB (JObj [(''data'', JObj [(''y'', JArr [JStr ''2'', JInt 5, JBool True])])])
     = Accepted [PyInt 0, PyInt 1, PyInt 2] [2, 5, 1]
         \<lparr> title = ''Data Plot'', x_label = ''Index'', y_label = ''Value'' \<rparr>
   \<and> dict_get [(''data'', JObj [(''y'', JArr [JStr ''2'', JInt 5, JBool True :: real json])])] ''data''
       = JObj [(''y'', JArr [JStr ''2'', JInt 5, JBool True])]
   \<and> map_of [(''y'', JArr [JStr ''2'', JInt 5, JBool True :: real json])] ''x'' = None
   \<and> [PyInt 0, PyInt 1, PyInt 2 :: real num] = map (\<lambda>i. PyInt (int i)) [0..<length [2, 5, 1 :: real]]"
proof -
  have h: "validate_plot_request exB (JObj [(''data'', JObj [(''y'', JArr [JStr ''2'', JInt 5, JBool True])])])
     = Accepted [PyInt 0, PyInt 1, PyInt 2] [2, 5, 1]
         \<lparr> title = ''Data Plot'', x_label = ''Index'', y_label = ''Value'' \<rparr>"
    by (simp add: eval_defs)
  have d: "dict_get [(''data'', JObj [(''y'', JArr [JStr ''2'', JInt 5, JBool True :: real json])])] ''data''
       = JObj [(''y'', JArr [JStr ''2'', JInt 5, JBool True])]"
    by (simp add: dict_get_def)
  have x: "map_of [(''y'', JArr [JStr ''2'', JInt 5, JBool True :: real json])] ''x'' = None"
    by simp
  have g: "(\<exists>vs. dict_get [(''data'', JObj [(''y'', JArr [JStr ''2'', JInt 5, JBool True :: real json])])] ''data'' = JArr vs)
         \<or> (\<exists>dd. dict_get [(''data'', JObj [(''y'', JArr [JStr ''2'', JInt 5, JBool True :: real json])])] ''data'' = JObj dd
               \<and> map_of dd ''x'' = None)"
    using d x by simp
  from synthesized_x_is_index_sequence [OF h g]
  have "[PyInt 0, PyInt 1, PyInt 2 :: real num] = map (\<lambda>i. PyInt (int i)) [0..<length [2, 5, 1 :: real]]"
    by blast
  with h d x show ?thesis by blast
qed

subsection \<open>The order of the rules\<close>

text \<open>
  Whenever the validator returns a message, it is the message of the first rule of the
  specification that fails, and whenever it accepts, no rule fails: the checks are made in
  the order of the specification wherever the validator returns.  In particular more than
  5000 elements are rejected as too many, whatever the elements are.
\<close>

lemma float_all_Inr_iff: "(\<exists>fs. float_all B vs = Inr fs) \<longleftrightarrow> list_all (convertible B) vs"
  by (induction vs) (auto simp: convertible_def split: sum.splits)

lemma float_all_Inl: "float_all B vs = Inl e \<Longrightarrow> \<not> list_all (convertible B) vs"
  using float_all_Inr_iff [of B vs] by auto

lemma float_all_Inr: "float_all B vs = Inr fs \<Longrightarrow> list_all (convertible B) vs"
  using float_all_Inr_iff [of B vs] by auto

lemma except_Rejected: "except_type_value msg e = Rejected msg' \<Longrightarrow> msg' = msg"
  by (cases e) simp_all

lemma first_failure_append:
  "first_failure (a @ b) = (case first_failure a of Some msg \<Rightarrow> Some msg | None \<Rightarrow> first_failure b)"
  by (induction a) auto

lemma validate_x_rejected:
  "validate_x B pd x yv = Rejected msg \<Longrightarrow> first_failure (x_rules B x (length yv)) = Some msg"
  by (cases x)
     (auto simp: validate_x_def x_rules_def is_array_def items_def
        dest: float_all_Inl float_all_Inr except_Rejected split: if_splits sum.splits)

lemma validate_x_accepted:
  "validate_x B pd x yv = Accepted xs ys m \<Longrightarrow> first_failure (x_rules B x (length yv)) = None"
  by (cases x)
     (auto simp: validate_x_def x_rules_def is_array_def items_def
        dest: float_all_Inr split: if_splits sum.splits)

lemma validate_y_rejected:
  assumes r: "validate_y B pd y x = Rejected msg"
  shows "first_failure (y_rules B y @ x_rules B x (length (items y))) = Some msg"
proof (cases y)
  case (JArr vs)
  show ?thesis
  proof (cases "length vs < 2 \<or> 5000 < length vs")
    case True
    with r JArr show ?thesis
      by (auto simp: validate_y_def y_rules_def is_array_def items_def first_failure_append
          split: if_splits)
  next
    case False
    show ?thesis
    proof (cases "float_all B vs")
      case (Inl e)
      with r JArr False have "msg = ''all y values must be numeric''"
        by (auto simp: validate_y_def dest: except_Rejected)
      with JArr False float_all_Inl [OF Inl] show ?thesis
        by (simp add: y_rules_def is_array_def items_def first_failure_append)
    next
      case (Inr yv)
      have l: "length yv = length vs" using Inr by (rule float_all_length)
      from r JArr Inr False have "validate_x B pd x yv = Rejected msg"
        by (simp add: validate_y_def)
      from validate_x_rejected [OF this] False JArr float_all_Inr [OF Inr] show ?thesis
        by (simp add: y_rules_def is_array_def items_def first_failure_append l)
    qed
  qed
qed (use r in \<open>auto simp: validate_y_def y_rules_def is_array_def first_failure_append\<close>)

lemma validate_y_accepted:
  assumes "validate_y B pd y x = Accepted xs ys m"
  shows "first_failure (y_rules B y @ x_rules B x (length (items y))) = None"
proof (cases y)
  case (JArr vs)
  from assms JArr have b: "\<not> length vs < 2" "\<not> 5000 < length vs"
    by (auto simp: validate_y_def split: if_splits)
  from assms JArr b obtain yv where f: "float_all B vs = Inr yv"
    and v: "validate_x B pd x yv = Accepted xs ys m"
    by (cases "float_all B vs") (auto simp: validate_y_def)
  have l: "length yv = length vs" using f by (rule float_all_length)
  from validate_x_accepted [OF v] b JArr float_all_Inr [OF f] show ?thesis
    by (simp add: y_rules_def is_array_def items_def first_failure_append l)
qed (use assms in \<open>auto simp: validate_y_def\<close>)

lemma validator_rejects_with_first_failure:
  assumes "validate_plot_request B payload = Rejected msg"
  shows "first_failure (spec_rules B payload) = Some msg"
proof (cases payload)
  case (JObj pd)
  show ?thesis
  proof (cases "dict_get pd ''data'' = JNull")
    case True
    with assms JObj show ?thesis
      by (simp add: validate_plot_request_def spec_rules_def is_object_def spec_data_def fields_def)
  next
    case False
    have "validate_y B pd (spec_y payload) (spec_x payload) = Rejected msg"
      using assms JObj False
      by (cases "dict_get pd ''data''")
         (simp_all add: validate_plot_request_def spec_y_def spec_x_def spec_data_def
            fields_def is_object_def)
    from validate_y_rejected [OF this] False JObj show ?thesis
      by (simp add: spec_rules_def is_object_def spec_data_def fields_def)
  qed
qed (use assms in \<open>auto simp: validate_plot_request_def spec_rules_def is_object_def\<close>)

lemma validator_accepts_without_failure:
  assumes "validate_plot_request B payload = Accepted xs ys m"
  shows "first_failure (spec_rules B payload) = None"
proof (cases payload)
  case (JObj pd)
  from assms JObj have n: "dict_get pd ''data'' \<noteq> JNull"
    by (auto simp: validate_plot_request_def Let_def split: if_splits)
  have "validate_y B pd (spec_y payload) (spec_x payload) = Accepted xs ys m"
    using assms JObj n
    by (cases "dict_get pd ''data''")
       (simp_all add: validate_plot_request_def spec_y_def spec_x_def spec_data_def
          fields_def is_object_def)
  from validate_y_accepted [OF this] n JObj show ?thesis
    by (simp add: spec_rules_def is_object_def spec_data_def fields_def)
qed (use assms in \<open>auto simp: validate_plot_request_def\<close>)

lemma too_many_points_before_numeric:
  "5000 < length vs \<Longrightarrow>
     validate_plot_request B (JObj [(''data'', JArr vs)])
       = Rejected ''data contains too many points (max 5000)''"
  by (simp add: validate_plot_request_def dict_get_def validate_y_def)

text \<open>
  C1.  The claim: for every payload the validator returns the message of the first rule
  that fails.  At the payload \<^verbatim>\<open>{"data": [2**1024, "a"]}\<close> the first rule of the
  specification that fails is the numeric rule on \<^verbatim>\<open>y\<close>, with the message ``all y values
  must be numeric'', but the validator returns nothing: \<^verbatim>\<open>float(2**1024)\<close> raises
  \<^verbatim>\<open>OverflowError\<close>, which \<^verbatim>\<open>except (TypeError, ValueError)\<close> does not catch, and POST
  /plots answers with the status 500 of an unhandled exception.
\<close>

theorem huge_int_escapes_validator:
  "first_failure (spec_rules B (JObj [(''data'', JArr [JInt (2 ^ 1024), JStr ''a''])]))
     = Some ''all y values must be numeric''
   \<and> validate_plot_request B (JObj [(''data'', JArr [JInt (2 ^ 1024), JStr ''a''])])
     = Raised OverflowError
   \<and> create_plot B s \<lparr> is_json = True,
        decoded = Some (JObj [(''data'', JArr [JInt (2 ^ 1024), JStr ''a''])]) \<rparr> env
     = (Unhandled OverflowError, s)"
  by (simp add: validate_plot_request_def dict_get_def validate_y_def int_too_large_def
      spec_rules_def y_rules_def x_rules_def is_object_def is_array_def items_def fields_def
      spec_data_def spec_y_def spec_x_def convertible_def create_plot_def get_json_silent_def)

text \<open>
  C9.  The claim: the error ``all x values must be numeric'' (and likewise for \<^verbatim>\<open>y\<close>) is
  returned if and only if float conversion of some element of the array raises.  At the
  payload \<^verbatim>\<open>{"data": {"y": [1, 2], "x": [0, 2**1024]}}\<close> the conversion of the element
  \<^verbatim>\<open>2**1024\<close> of \<^verbatim>\<open>x\<close> raises, but the validator returns no error message: the
  \<^verbatim>\<open>OverflowError\<close> leaves it.  The same holds for \<^verbatim>\<open>y\<close> at \<^verbatim>\<open>{"data": [1, 2**1024]}\<close>.
\<close>

theorem huge_int_in_x_is_not_reported:
  "py_float B (JInt (2 ^ 1024)) = Inl OverflowError
   \<and> validate_plot_request B
       (JObj [(''data'', JObj [(''y'', JArr [JInt 1, JInt 2]),
                              (''x'', JArr [JInt 0, JInt (2 ^ 1024)])])])
     = Raised OverflowError
   \<and> validate_plot_request B (JObj [(''data'', JArr [JInt 1, JInt (2 ^ 1024)])])
     = Raised OverflowError"
  by (simp add: validate_plot_request_def dict_get_def validate_y_def validate_x_def
      int_too_large_def)

lemma numeric_strings_validate:
  "validate_plot_request exB (JObj [(''data'', JArr [JStr ''3.5'', JStr ''2'', JBool True])])
     = Accepted [PyInt 0, PyInt 1, PyInt 2] [3.5, 2, 1]
         \<lparr> title = ''Data Plot'', x_label = ''Index'', y_label = ''Value'' \<rparr>"
  by (simp add: eval_defs)

section \<open>Properties of the plot index\<close>

lemma map_fst_update:
  "map fst (AList.update k v al) = (if k \<in> fst ` set al then map fst al else map fst al @ [k])"
  by (induction al) auto

lemma create_plot_PLOTS:
  "create_plot B s req env = (resp, s') \<Longrightarrow>
     PLOTS s' =
       (if status_code resp = 200
        then AList.update (uuid4 env)
               \<lparr> path = os_path_join (PLOTS_DIR s) (uuid4 env @ ''.png''),
                 created_at = utcnow_isoformat env @ ''Z'' \<rparr> (PLOTS s)
        else PLOTS s)"
  by (auto simp: create_plot_def generate_plot_file_def Let_def error_body_def
      split: if_splits outcome.splits savefig_outcome.splits option.splits)

lemma handle_keys:
  "handle B s r = (resp, s') \<Longrightarrow>
     map fst (PLOTS s') =
       (case post_uuid r of
          Some u \<Rightarrow>
            if status_code resp = 200 \<and> u \<notin> fst ` set (PLOTS s)
            then map fst (PLOTS s) @ [u] else map fst (PLOTS s)
        | None \<Rightarrow> map fst (PLOTS s))"
  by (cases r)
     (force simp: health_def download_plot_def not_found_def Let_def map_fst_update
        dest!: create_plot_PLOTS split: option.splits if_splits)+

lemma run_keys:
  "run B s rs = (resps, s') \<Longrightarrow> distinct (map fst (PLOTS s) @ generated_ids B s rs) \<Longrightarrow>
     map fst (PLOTS s') = map fst (PLOTS s) @ generated_ids B s rs"
proof (induction rs arbitrary: s resps)
  case Nil
  then show ?case by simp
next
  case (Cons r rs)
  obtain resp s1 where h: "handle B s r = (resp, s1)" by (cases "handle B s r")
  obtain resps1 where r1: "run B s1 rs = (resps1, s')"
    using Cons.prems(1) h by (auto split: prod.splits)
  note k = handle_keys[OF h]
  show ?case
  proof (cases "post_uuid r")
    case None
    with k have e: "map fst (PLOTS s1) = map fst (PLOTS s)" by simp
    from Cons.prems(2) h None have "distinct (map fst (PLOTS s1) @ generated_ids B s1 rs)"
      by (simp add: e)
    from Cons.IH[OF r1 this] show ?thesis using h None e by simp
  next
    case (Some u)
    show ?thesis
    proof (cases "status_code resp = 200")
      case True
      from Cons.prems(2) h Some True
      have d: "distinct (map fst (PLOTS s) @ u # generated_ids B s1 rs)"
        by simp
      then have "u \<notin> fst ` set (PLOTS s)" by auto
      with k Some True have e: "map fst (PLOTS s1) = map fst (PLOTS s) @ [u]" by simp
      from d have "distinct (map fst (PLOTS s1) @ generated_ids B s1 rs)" by (simp add: e)
      from Cons.IH[OF r1 this] show ?thesis using h Some True e by simp
    next
      case False
      with k Some have e: "map fst (PLOTS s1) = map fst (PLOTS s)" by simp
      from Cons.prems(2) h Some False
      have "distinct (map fst (PLOTS s1) @ generated_ids B s1 rs)"
        by (simp add: e)
      from Cons.IH[OF r1 this] show ?thesis using h Some False e by simp
    qed
  qed
qed

lemma generated_ids_count:
  "run B s rs = (resps, s') \<Longrightarrow> length (generated_ids B s rs) = successful_posts rs resps"
proof (induction rs arbitrary: s resps)
  case Nil
  then show ?case by (simp add: successful_posts_def)
next
  case (Cons r rs)
  obtain resp s1 where h: "handle B s r = (resp, s1)" by (cases "handle B s r")
  obtain resps1 where r1: "run B s1 rs = (resps1, s')" and e: "resps = resp # resps1"
    using Cons.prems(1) h by (auto split: prod.splits)
  from Cons.IH[OF r1] have "length (generated_ids B s1 rs) = successful_posts rs resps1" .
  then show ?case using h e
    by (cases r) (auto simp: successful_posts_def)
qed

text \<open>
  C3.  After any sequence of requests from process start, in which the identifiers that the
  successful POSTs generated are pairwise distinct, GET /health answers 200 with a
  \<^verbatim>\<open>stored_plots\<close> count equal to the number of successful POSTs, which is the size of
  the index.
\<close>

theorem health_counts_successful_posts:
  assumes "run B (init_state dir fs) rs = (resps, s')"
    and "distinct (generated_ids B (init_state dir fs) rs)"
  shows "health s' =
           (JsonResponse
              (JObj [(''status'', JStr ''ok''),
                     (''service'', JStr ''data-plot-visualizer''),
                     (''stored_plots'', JInt (int (successful_posts rs resps)))])
              200, s')
         \<and> length (PLOTS s') = successful_posts rs resps"
proof -
  have "map fst (PLOTS s') =
          map fst (PLOTS (init_state dir fs)) @ generated_ids B (init_state dir fs) rs"
    using assms(2) by (intro run_keys[OF assms(1)]) (simp add: init_state_def)
  then have "length (map fst (PLOTS s')) = length (generated_ids B (init_state dir fs) rs)"
    by (simp add: init_state_def)
  then have "length (PLOTS s') = successful_posts rs resps"
    using generated_ids_count[OF assms(1)] by simp
  then show ?thesis by (simp add: health_def)
qed

lemma ex_run_result: "run exB (init_state ''plots'' Map.empty) ex_run = (ex_responses, ex_final)"
  by (simp add: ex_run_def ex_responses_def ex_final_def eval_defs)

lemma ex_run_ids: "generated_ids exB (init_state ''plots'' Map.empty) ex_run = [''a1'', ''b2'']"
  by (simp add: ex_run_def eval_defs)

theorem health_counts_successful_posts_witness:
  "run exB (init_state ''plots'' Map.empty) ex_run = (ex_responses, ex_final)
   \<and> distinct (generated_ids exB (init_state ''plots'' Map.empty) ex_run)
   \<and> successful_posts ex_run ex_responses = 2
   \<and> (health ex_final :: real response \<times> state) =
       (JsonResponse
          (JObj [(''status'', JStr ''ok''),
                 (''service'', JStr ''data-plot-visualizer''),
                 (''stored_plots'', JInt 2)])
          200, ex_final)
   \<and> length (PLOTS ex_final) = 2"
proof -
  have d: "distinct (generated_ids exB (init_state ''plots'' Map.empty) ex_run)"
    by (simp add: ex_run_ids)
  have n: "successful_posts ex_run ex_responses = 2"
    by (simp add: successful_posts_def ex_run_def ex_responses_def)
  show ?thesis
    using health_counts_successful_posts [OF ex_run_result d] ex_run_result d n by simp
qed

text \<open>
  C10.  On every successful POST /plots, the \<^verbatim>\<open>plot_id\<close>, \<^verbatim>\<open>image_path\<close> and
  \<^verbatim>\<open>created_at\<close> of the response body are the values stored in the index: after the
  call \<^verbatim>\<open>PLOTS[plot_id]\<close> exists, its path is the returned \<^verbatim>\<open>image_path\<close> and its
  \<^verbatim>\<open>created_at\<close> is the returned \<^verbatim>\<open>created_at\<close>.
\<close>

theorem response_matches_index:
  assumes "create_plot B s req env = (resp, s')"
    and "status_code resp = 200"
  shows "\<exists>plot_id image_path created.
           resp = JsonResponse
                    (JObj [(''status'', JStr ''ok''),
                           (''plot_id'', JStr plot_id),
                           (''created_at'', JStr created),
                           (''image_path'', JStr image_path)])
                    200
           \<and> map_of (PLOTS s') plot_id = Some \<lparr> path = image_path, created_at = created \<rparr>"
  using assms
  by (auto simp: create_plot_def generate_plot_file_def Let_def error_body_def update_conv'
      split: if_splits outcome.splits savefig_outcome.splits option.splits)

theorem response_matches_index_witness:
  "create_plot exB (init_state ''plots'' Map.empty) ok_body env1
     = (JsonResponse
          (JObj [(''status'', JStr ''ok''), (''plot_id'', JStr ''a1''),
                 (''created_at'', JStr ''2024-01-01T00:00:00Z''),
                 (''image_path'', JStr ''plots/a1.png'')])
          200, after_first)
   \<and> map_of (PLOTS after_first) ''a1''
       = Some \<lparr> path = ''plots/a1.png'', created_at = ''2024-01-01T00:00:00Z'' \<rparr>"
proof -
  have h: "create_plot exB (init_state ''plots'' Map.empty) ok_body env1
     = (JsonResponse
          (JObj [(''status'', JStr ''ok''), (''plot_id'', JStr ''a1''),
                 (''created_at'', JStr ''2024-01-01T00:00:00Z''),
                 (''image_path'', JStr ''plots/a1.png'')])
          200, after_first)"
    by (simp add: eval_defs after_first_def)
  show ?thesis using h response_matches_index [OF h] by (simp add: after_first_def)
qed

section \<open>Properties of the routes\<close>

text \<open>
  C4.  GET /plots/id fails in exactly two ways: with 404 exactly when the identifier is
  not in the index, and with 500 exactly when it is in the index and the recorded file
  path does not exist on disk; otherwise it answers 200.  Both failures carry a body
  of the form \<^verbatim>\<open>{status: "error", message: <string>}\<close>.
\<close>

theorem download_fails_in_two_ways:
  "(status_code (fst (download_plot s plot_id :: 'f response \<times> state)) = 404
       \<longleftrightarrow> map_of (PLOTS s) plot_id = None)
   \<and> (status_code (fst (download_plot s plot_id :: 'f response \<times> state)) = 500
       \<longleftrightarrow> (\<exists>info. map_of (PLOTS s) plot_id = Some info \<and> \<not> os_path_exists (files s) (path info)))
   \<and> (status_code (fst (download_plot s plot_id :: 'f response \<times> state)) = 200
       \<longleftrightarrow> (\<exists>info. map_of (PLOTS s) plot_id = Some info \<and> os_path_exists (files s) (path info)))
   \<and> (status_code (fst (download_plot s plot_id :: 'f response \<times> state)) \<noteq> 200
       \<longrightarrow> (\<exists>msg. fst (download_plot s plot_id :: 'f response \<times> state)
                    = JsonResponse (JObj [(''status'', JStr ''error''), (''message'', JStr msg)])
                        (status_code (fst (download_plot s plot_id :: 'f response \<times> state)))))"
  by (auto simp: download_plot_def Let_def error_body_def os_path_exists_def split: option.splits)

theorem download_fails_in_two_ways_witness:
  "status_code (fst (download_plot missing_file_state ''zz'' :: real response \<times> state)) = 404
   \<and> map_of (PLOTS missing_file_state) ''zz'' = None
   \<and> status_code (fst (download_plot missing_file_state ''a1'' :: real response \<times> state)) = 500
   \<and> map_of (PLOTS missing_file_state) ''a1''
       = Some \<lparr> path = ''plots/a1.png'', created_at = ''2024-01-01T00:00:00Z'' \<rparr>
   \<and> \<not> os_path_exists (files missing_file_state) ''plots/a1.png''
   \<and> (fst (download_plot missing_file_state ''a1'') :: real response)
       = JsonResponse (JObj [(''status'', JStr ''error''),
           (''message'', JStr ''plot file is missing or unavailable'')]) 500
   \<and> (fst (download_plot missing_file_state ''b2'') :: real response)
       = FileResponse ''PNG2'' ''image/png'' ''plot-b2.png''"
  using download_fails_in_two_ways [of missing_file_state "''zz''", where 'f = real]
    download_fails_in_two_ways [of missing_file_state "''a1''", where 'f = real]
  by (simp add: missing_file_state_def ex_final_def download_plot_def os_path_exists_def
      error_body_def Let_def)

text \<open>
  Whenever the validator returns an error message, POST /plots answers 400 with that
  message and leaves all state unchanged: no file is written and the index is not
  modified.
\<close>

lemma rejected_payload_leaves_state:
  assumes "validate_plot_request B (get_json_silent req) = Rejected msg"
  shows "status_code (fst (create_plot B s req env)) = 400 \<and> snd (create_plot B s req env) = s
         \<and> (is_json req \<longrightarrow> create_plot B s req env = (JsonResponse (error_body msg) 400, s))"
  using assms by (simp add: create_plot_def Let_def)

lemma rejected_payload_leaves_state_example:
  "validate_plot_request exB (get_json_silent short_body) = Rejected ''at least two data points are required''
   \<and> is_json short_body
   \<and> create_plot exB ex_final short_body env1
       = (JsonResponse (JObj [(''status'', JStr ''error''),
            (''message'', JStr ''at least two data points are required'')]) 400, ex_final)"
proof -
  have h: "validate_plot_request exB (get_json_silent short_body)
             = Rejected ''at least two data points are required''"
    by (simp add: eval_defs)
  have j: "is_json short_body" by (simp add: short_body_def)
  show ?thesis
    using h j rejected_payload_leaves_state [OF h, of ex_final env1]
    by (simp add: error_body_def)
qed

text \<open>
  The generator is reached only from an accepted payload: in every other case, also when
  the validator raises, the state after POST /plots is the state before.
\<close>

lemma create_plot_state_unchanged:
  "(\<forall>xs ys m. validate_plot_request B (get_json_silent req) \<noteq> Accepted xs ys m) \<Longrightarrow>
     snd (create_plot B s req env) = s"
  by (cases "validate_plot_request B (get_json_silent req)") (simp_all add: create_plot_def)

text \<open>
  C5.  The claim: for every payload that fails validation, POST /plots returns 400 and
  leaves all state unchanged.  The payload \<^verbatim>\<open>{"data": [1, 2**1024]}\<close> fails validation:
  the rule that every \<^verbatim>\<open>y\<close> element must be convertible to a floating-point number is
  the first rule of the specification that fails, with the message ``all y values must be
  numeric''.  But the validator returns no message, since \<^verbatim>\<open>float(2**1024)\<close> raises
  \<^verbatim>\<open>OverflowError\<close>, which \<^verbatim>\<open>except (TypeError, ValueError)\<close> does not catch, and POST
  /plots answers with the status 500 of an unhandled exception, not with 400.  The state
  is unchanged there too.
\<close>

theorem failed_validation_answers_500:
  "first_failure (spec_rules B (JObj [(''data'', JArr [JInt 1, JInt (2 ^ 1024)])]))
     = Some ''all y values must be numeric''
   \<and> status_code (fst (create_plot B s \<lparr> is_json = True,
        decoded = Some (JObj [(''data'', JArr [JInt 1, JInt (2 ^ 1024)])]) \<rparr> env)) = 500
   \<and> status_code (fst (create_plot B s \<lparr> is_json = True,
        decoded = Some (JObj [(''data'', JArr [JInt 1, JInt (2 ^ 1024)])]) \<rparr> env)) \<noteq> 400
   \<and> snd (create_plot B s \<lparr> is_json = True,
        decoded = Some (JObj [(''data'', JArr [JInt 1, JInt (2 ^ 1024)])]) \<rparr> env) = s"
  by (simp add: validate_plot_request_def dict_get_def validate_y_def int_too_large_def
      spec_rules_def y_rules_def x_rules_def is_object_def is_array_def items_def fields_def
      spec_data_def spec_y_def spec_x_def convertible_def create_plot_def get_json_silent_def)

text \<open>
  C7.  GET /plots/id never mutates the index or the stored files: the state after the
  call is the state before, and any number of repeated calls for the same id return the
  same response each time and leave the state unchanged.
\<close>

theorem download_is_read_only:
  "snd (download_plot s plot_id :: 'f response \<times> state) = s
   \<and> run B s (replicate n (GetPlot plot_id))
       = (replicate n (fst (download_plot s plot_id :: 'f response \<times> state)), s)"
proof -
  have a: "snd (download_plot s plot_id :: 'f response \<times> state) = s"
    by (simp add: download_plot_def Let_def split: option.splits)
  have "run B s (replicate n (GetPlot plot_id))
       = (replicate n (fst (download_plot s plot_id :: 'f response \<times> state)), s)"
  proof (induction n)
    case 0
    show ?case by simp
  next
    case (Suc n)
    obtain resp where r: "(download_plot s plot_id :: 'f response \<times> state) = (resp, s)"
      using a by (cases "download_plot s plot_id :: 'f response \<times> state") simp
    show ?case using Suc r by simp
  qed
  with a show ?thesis by simp
qed

theorem download_is_read_only_witness:
  "snd (download_plot ex_final ''a1'' :: real response \<times> state) = ex_final
   \<and> run exB ex_final [GetPlot ''a1'', GetPlot ''a1'', GetPlot ''a1'']
       = ([FileResponse ''PNG1'' ''image/png'' ''plot-a1.png'',
           FileResponse ''PNG1'' ''image/png'' ''plot-a1.png'',
           FileResponse ''PNG1'' ''image/png'' ''plot-a1.png''], ex_final)"
proof -
  have f: "fst (download_plot ex_final ''a1'' :: real response \<times> state)
             = FileResponse ''PNG1'' ''image/png'' ''plot-a1.png''"
    by (simp add: ex_final_def download_plot_def os_path_exists_def Let_def)
  have r: "replicate 3 (GetPlot ''a1'' :: real request) = [GetPlot ''a1'', GetPlot ''a1'', GetPlot ''a1'']"
    by (simp add: numeral_3_eq_3)
  have q: "replicate 3 (FileResponse ''PNG1'' ''image/png'' ''plot-a1.png'' :: real response)
             = [FileResponse ''PNG1'' ''image/png'' ''plot-a1.png'',
                FileResponse ''PNG1'' ''image/png'' ''plot-a1.png'',
                FileResponse ''PNG1'' ''image/png'' ''plot-a1.png'']"
    by (simp add: numeral_3_eq_3)
  show ?thesis
    using download_is_read_only [of ex_final "''a1''" exB 3]
    unfolding f r q by simp
qed



end
